theory Spec2Isabelle
  imports Main "HOL-Library.AList"
begin

section \<open>The placeholder decorator of CodeAceJumper\<close>

text \<open>
  A shallow embedding of \<^verbatim>\<open>src/placeholder-decorator.ts\<close>. The class
  \<^verbatim>\<open>PlaceHolderDecorator\<close> becomes a record of its fields, the editor host
  (\<^verbatim>\<open>window\<close>, \<^verbatim>\<open>TextEditor\<close>, \<^verbatim>\<open>TextEditorDecorationType\<close>)
  becomes a record holding a journal of the calls made to it, and every method becomes
  a function on the pair of both. JavaScript numbers are modelled as \<open>int\<close>, strings as
  \<open>string\<close>, \<^verbatim>\<open>undefined\<close> as \<open>None\<close>, and a thrown \<^verbatim>\<open>TypeError\<close> as the
  left injection of a sum carrying the state the throw leaves behind.
\<close>

subsection \<open>Configuration and targets\<close>

text \<open>
  \<^verbatim>\<open>Config\<close> (\<^verbatim>\<open>./config/config\<close>) and \<^verbatim>\<open>Placeholder\<close>
  (\<^verbatim>\<open>./models/placeholder\<close>) are type declarations; the records hold the fields the
  decorator reads.
\<close>

record PlaceholderConfig =
  width :: int
  height :: int
  backgroundColor :: string
  color :: string
  fontFamily :: string
  fontWeight :: string
  fontSize :: int
  textPosX :: int
  textPosY :: int
  upperCase :: bool

record HighlightConfig =
  width :: int
  height :: int
  backgroundColor :: string
  offsetX :: int
  offsetY :: int

record Config =
  characters :: "string list"
  placeholder :: PlaceholderConfig
  highlight :: HighlightConfig

record Placeholder =
  line :: int
  character :: int
  placeholder :: string

subsection \<open>Strings and numbers of the host language\<close>

fun digits :: "nat \<Rightarrow> string" where
  "digits n = (if n < 10 then [''0123456789'' ! n]
               else digits (n div 10) @ [''0123456789'' ! (n mod 10)])"

declare digits.simps [simp del]

text \<open>The text of a number inside a template literal, \<^verbatim>\<open>`${n}`\<close>.\<close>

definition toString :: "int \<Rightarrow> string" where
  "toString n = (if n < 0 then CHR ''-'' # digits (nat (- n)) else digits (nat n))"

definition lowerLetters :: string where
  "lowerLetters = ''abcdefghijklmnopqrstuvwxyz''"

definition upperLetters :: string where
  "upperLetters = ''ABCDEFGHIJKLMNOPQRSTUVWXYZ''"

definition isASCII :: "char \<Rightarrow> bool" where
  "isASCII c = (of_char c < (128::nat))"

text \<open>
  \<^verbatim>\<open>String.prototype.toUpperCase\<close> and \<^verbatim>\<open>toLowerCase\<close>. On ASCII text they change
  the letters \<^verbatim>\<open>a\<close> to \<^verbatim>\<open>z\<close>, respectively \<^verbatim>\<open>A\<close> to \<^verbatim>\<open>Z\<close>, and nothing
  else. On any other text they follow the case tables of Unicode, which may also change
  the length; that part of the two functions is left unspecified here, so nothing is
  stated about it.
\<close>

definition toUpperCase_beyond_ASCII :: "string \<Rightarrow> string" where
  "toUpperCase_beyond_ASCII = undefined"

definition toLowerCase_beyond_ASCII :: "string \<Rightarrow> string" where
  "toLowerCase_beyond_ASCII = undefined"

definition toUpperCase :: "string \<Rightarrow> string" where
  "toUpperCase s =
     (if list_all isASCII s
      then map (\<lambda>c. case map_of (zip lowerLetters upperLetters) c of Some u \<Rightarrow> u | None \<Rightarrow> c) s
      else toUpperCase_beyond_ASCII s)"

definition toLowerCase :: "string \<Rightarrow> string" where
  "toLowerCase s =
     (if list_all isASCII s
      then map (\<lambda>c. case map_of (zip upperLetters lowerLetters) c of Some l \<Rightarrow> l | None \<Rightarrow> c) s
      else toLowerCase_beyond_ASCII s)"

subsection \<open>The markup builder\<close>

text \<open>
  The part of the \<^verbatim>\<open>xmlbuilder\<close> library the decorator uses: \<^verbatim>\<open>create\<close>
  (headless, so without a declaration), \<^verbatim>\<open>att\<close>, \<^verbatim>\<open>ele\<close>,
  \<^verbatim>\<open>text\<close> and \<^verbatim>\<open>end({pretty: false})\<close>. An element keeps its attributes
  in the order they were first set and its children in the order they were added.
\<close>

datatype XMLNode =
  XMLElement string "(string \<times> string) list" "XMLNode list"
| XMLText string

definition create :: "string \<Rightarrow> XMLNode" where
  "create name = XMLElement name [] []"

fun att :: "string \<Rightarrow> string \<Rightarrow> XMLNode \<Rightarrow> XMLNode" where
  "att name v (XMLElement n attribs children) =
     XMLElement n (AList.update name v attribs) children"
| "att name v (XMLText t) = XMLText t"

fun ele :: "XMLNode \<Rightarrow> XMLNode \<Rightarrow> XMLNode" where
  "ele child (XMLElement n attribs children) = XMLElement n attribs (children @ [child])"
| "ele child (XMLText t) = XMLText t"

definition text_node :: "string \<Rightarrow> XMLNode \<Rightarrow> XMLNode" where
  "text_node t parent = ele (XMLText t) parent"

text \<open>
  The escaping of attribute values and of text: the ampersand first, then the angle
  brackets or the double quote, then tab, line feed and carriage return as character
  references.
\<close>

definition attEscape :: "string \<Rightarrow> string" where
  "attEscape s = concat (map (\<lambda>c. if c = CHR ''&'' then ''&amp;''
                                   else if c = CHR ''<'' then ''&lt;''
                                   else if c = CHR 0x22 then ''&quot;''
                                   else if c = CHR 0x09 then ''&#x9;''
                                   else if c = CHR 0x0A then ''&#xA;''
                                   else if c = CHR 0x0D then ''&#xD;''
                                   else [c]) s)"

definition eleEscape :: "string \<Rightarrow> string" where
  "eleEscape s = concat (map (\<lambda>c. if c = CHR ''&'' then ''&amp;''
                                   else if c = CHR ''<'' then ''&lt;''
                                   else if c = CHR ''>'' then ''&gt;''
                                   else if c = CHR 0x0D then ''&#xD;''
                                   else [c]) s)"

definition attribute :: "string \<times> string \<Rightarrow> string" where
  "attribute a = '' '' @ fst a @ ''='' @ [CHR 0x22] @ attEscape (snd a) @ [CHR 0x22]"

fun isEmptyText :: "XMLNode \<Rightarrow> bool" where
  "isEmptyText (XMLText t) = (t = [])"
| "isEmptyText (XMLElement n attribs children) = False"

text \<open>
  The compact writer: no line breaks and no indentation between the nodes. An element
  without children, or whose children are all empty text, is written self-closing.
\<close>

fun end_compact :: "XMLNode \<Rightarrow> string" where
  "end_compact (XMLText t) = eleEscape t"
| "end_compact (XMLElement n attribs children) =
     (if list_all isEmptyText children
      then ''<'' @ n @ concat (map attribute attribs) @ ''/>''
      else ''<'' @ n @ concat (map attribute attribs) @ ''>''
           @ concat (map end_compact children) @ ''</'' @ n @ ''>'')"

datatype Uri = Uri_parse string

subsection \<open>The glyph builder\<close>

definition placeholder_svg :: "Config \<Rightarrow> string \<Rightarrow> XMLNode" where
  "placeholder_svg config code =
     (let p = Config.placeholder config;
          root = create ''svg'';
          root = att ''height'' (toString (PlaceholderConfig.height p))
                (att ''width'' (toString (PlaceholderConfig.width p))
                (att ''viewBox'' (''0 0 '' @ toString (PlaceholderConfig.width p) @ '' ''
                                   @ toString (PlaceholderConfig.height p))
                (att ''xmlns'' ''http://www.w3.org/2000/svg'' root)));
          rect = att ''style'' (''fill: '' @ PlaceholderConfig.backgroundColor p)
                (att ''ry'' (toString 2)
                (att ''rx'' (toString 2)
                (att ''height'' (toString (PlaceholderConfig.height p))
                (att ''width'' (toString (PlaceholderConfig.width p))
                (create ''rect'')))));
          root = ele rect root;
          txt = text_node (if upperCase p then toUpperCase code else toLowerCase code)
                (att ''y'' (toString (textPosY p))
                (att ''x'' (toString (textPosX p))
                (att ''fill'' (color p)
                (att ''font-size'' (toString (fontSize p) @ ''px'')
                (att ''font-family'' (fontFamily p)
                (att ''font-weight'' (fontWeight p)
                (create ''text'')))))))
      in ele txt root)"

definition buildUriForPlaceholder :: "Config \<Rightarrow> string \<Rightarrow> Uri" where
  "buildUriForPlaceholder config code =
     Uri_parse (''data:image/svg+xml;utf8,'' @ end_compact (placeholder_svg config code))"

definition highlight_svg :: "Config \<Rightarrow> int \<Rightarrow> XMLNode" where
  "highlight_svg config characterCount =
     (let width = HighlightConfig.width (highlight config) * characterCount;
          height = HighlightConfig.height (highlight config);
          offsetX = offsetX (highlight config);
          offsetY = offsetY (highlight config);
          root = create ''svg'';
          root = att ''height'' (toString height)
                (att ''width'' (toString width)
                (att ''viewBox'' (toString offsetX @ '' '' @ toString offsetY @ '' ''
                                   @ toString width @ '' '' @ toString height)
                (att ''xmlns'' ''http://www.w3.org/2000/svg'' root)));
          rect = att ''style'' (''fill: '' @ HighlightConfig.backgroundColor (highlight config))
                (att ''ry'' (toString 2)
                (att ''rx'' (toString 2)
                (att ''height'' (toString height)
                (att ''width'' (toString width)
                (create ''rect'')))))
      in ele rect root)"

definition buildUriForHighlight :: "Config \<Rightarrow> int \<Rightarrow> Uri" where
  "buildUriForHighlight config characterCount =
     Uri_parse (''data:image/svg+xml;utf8,'' @ end_compact (highlight_svg config characterCount))"

subsection \<open>The editor host\<close>

text \<open>
  The \<^verbatim>\<open>vscode\<close> interface as the decorator uses it. Positions and ranges are
  plain data. A decoration type is a handle the window allocates; the host record counts
  the handles allocated so far and keeps the journal of all calls it received, in order.
\<close>

datatype Position = Position int int

datatype Range = Range Position Position

text \<open>The constructor \<^verbatim>\<open>new Range(startLine, startCharacter, endLine, endCharacter)\<close>.\<close>

definition Range_of_numbers :: "int \<Rightarrow> int \<Rightarrow> int \<Rightarrow> int \<Rightarrow> Range" where
  "Range_of_numbers sl sc el ec = Range (Position sl sc) (Position el ec)"

text \<open>\<^verbatim>\<open>Number.MAX_VALUE\<close>, the largest finite double, is an integer.\<close>

definition MAX_VALUE :: int where
  "MAX_VALUE = 2 ^ 1024 - 2 ^ 971"

text \<open>
  \<^verbatim>\<open>DecorationRenderOptions\<close>: either \<^verbatim>\<open>{after: {margin, height, width}}\<close>
  or \<^verbatim>\<open>{textDecoration}\<close>.
\<close>

datatype DecorationRenderOptions =
  After string string string
| TextDecoration string

text \<open>
  What reading a property of a cache can yield besides \<^verbatim>\<open>undefined\<close>: a resource the
  cache holds, or the member of the given name that every object inherits.
\<close>

datatype Icon = Resource Uri | Inherited string

text \<open>
  \<^verbatim>\<open>DecorationOptions\<close>: the range, then \<^verbatim>\<open>renderOptions.dark.after.contentIconPath\<close>
  and \<^verbatim>\<open>renderOptions.light.after.contentIconPath\<close>.
\<close>

datatype DecorationOptions = DecorationOptions Range "Icon option" "Icon option"

datatype RangeOrOptions = Ranged Range | Optioned DecorationOptions

datatype TextEditorDecorationType = DecorationType nat

record TextDocument =
  lineCount :: int

record TextEditor =
  ident :: nat
  document :: TextDocument

datatype Event =
  Created TextEditorDecorationType DecorationRenderOptions
| SetDecorations TextEditor TextEditorDecorationType "RangeOrOptions list"
| Disposed TextEditorDecorationType

record Host =
  allocated :: nat
  journal :: "Event list"

definition createTextEditorDecorationType ::
    "DecorationRenderOptions \<Rightarrow> Host \<Rightarrow> TextEditorDecorationType \<times> Host" where
  "createTextEditorDecorationType options host =
     (DecorationType (allocated host),
      host\<lparr>allocated := Suc (allocated host),
           journal := journal host @ [Created (DecorationType (allocated host)) options]\<rparr>)"

definition setDecorations ::
    "TextEditor \<Rightarrow> TextEditorDecorationType \<Rightarrow> RangeOrOptions list \<Rightarrow> Host \<Rightarrow> Host" where
  "setDecorations editor decorationType rangesOrOptions host =
     host\<lparr>journal := journal host @ [SetDecorations editor decorationType rangesOrOptions]\<rparr>"

definition dispose :: "TextEditorDecorationType \<Rightarrow> Host \<Rightarrow> Host" where
  "dispose decorationType host = host\<lparr>journal := journal host @ [Disposed decorationType]\<rparr>"

subsection \<open>The decorator\<close>

record PlaceHolderDecorator =
  config :: "Config option"
  placeholderCache :: "(string \<times> Uri) list option"
  highlightCache :: "(int \<times> Uri) list option"
  dim :: "TextEditorDecorationType option"
  decorations :: "TextEditorDecorationType list"
  highlights :: "TextEditorDecorationType list"

text \<open>A new instance: only the two lists have initialisers.\<close>

definition new_PlaceHolderDecorator :: PlaceHolderDecorator where
  "new_PlaceHolderDecorator =
     \<lparr>config = None, placeholderCache = None, highlightCache = None, dim = None,
      decorations = [], highlights = []\<rparr>"

definition new_Host :: Host where
  "new_Host = \<lparr>allocated = 0, journal = []\<rparr>"

datatype Error = TypeError

type_synonym World = "PlaceHolderDecorator \<times> Host"

text \<open>
  Both caches are objects built by a \<^verbatim>\<open>reduce\<close> that starts from a fresh
  \<^verbatim>\<open>{}\<close> and assigns \<^verbatim>\<open>acc[key]\<close>; they are association lists, and the assignment
  is \<^const>\<open>AList.update\<close>.
\<close>

definition updateCache :: "PlaceHolderDecorator \<Rightarrow> Error + PlaceHolderDecorator" where
  "updateCache this =
     (case config this of
        None \<Rightarrow> Inl TypeError
      | Some c \<Rightarrow>
          Inr (this
            \<lparr>placeholderCache :=
               Some (foldl (\<lambda>acc code. AList.update code (buildUriForPlaceholder c code) acc)
                           [] (characters c)),
             highlightCache :=
               Some (foldl (\<lambda>acc width. AList.update width (buildUriForHighlight c width) acc)
                           [] (map (\<lambda>i. int i + 1) [0..<10]))\<rparr>))"

definition refreshConfig :: "Config \<Rightarrow> World \<Rightarrow> (Error \<times> World) + World" where
  "refreshConfig c w =
     (let this = (fst w)\<lparr>config := Some c\<rparr> in
      case updateCache this of
        Inl e \<Rightarrow> Inl (e, (this, snd w))
      | Inr this' \<Rightarrow> Inr (this', snd w))"

text \<open>
  The names of the members of \<^verbatim>\<open>Object.prototype\<close>, which an object created by
  \<^verbatim>\<open>{}\<close> inherits. (That prototype stays in place as long as \<^verbatim>\<open>__proto__\<close> is not
  itself assigned as a code; the configured codes are single glyphs.)
\<close>

definition Object_prototype :: "string list" where
  "Object_prototype =
     [''constructor'', ''__defineGetter__'', ''__defineSetter__'', ''hasOwnProperty'',
      ''__lookupGetter__'', ''__lookupSetter__'', ''isPrototypeOf'', ''propertyIsEnumerable'',
      ''toString'', ''valueOf'', ''__proto__'', ''toLocaleString'']"

text \<open>
  Reading \<^verbatim>\<open>cache[key]\<close> with a string key: the cache's own property of that name if
  it has one, else the inherited member of that name if there is one, else
  \<^verbatim>\<open>undefined\<close>.
\<close>

definition get_property :: "(string \<times> Uri) list \<Rightarrow> string \<Rightarrow> Icon option" where
  "get_property obj key =
     (case map_of obj key of
        Some u \<Rightarrow> Some (Resource u)
      | None \<Rightarrow> if key \<in> set Object_prototype then Some (Inherited key) else None)"

text \<open>
  Reading \<^verbatim>\<open>cache[n]\<close> with a number: the key is the text of the number, which is
  never the name of an inherited member, so only the cache's own properties count.
\<close>

definition get_indexed :: "(int \<times> Uri) list \<Rightarrow> int \<Rightarrow> Icon option" where
  "get_indexed obj n = map_option Resource (map_of obj n)"

text \<open>
  The callback of \<^verbatim>\<open>map\<close> in \<^verbatim>\<open>addDecorations\<close>. Indexing a cache that is still
  \<^verbatim>\<open>undefined\<close> throws, which happens at the first target.
\<close>

definition placeholderOptions ::
    "(string \<times> Uri) list option \<Rightarrow> Placeholder list \<Rightarrow> Error + RangeOrOptions list" where
  "placeholderOptions cache placeholders =
     (case cache of
        None \<Rightarrow> if placeholders = [] then Inr [] else Inl TypeError
      | Some m \<Rightarrow>
          Inr (map (\<lambda>p. Optioned (DecorationOptions
                      (Range_of_numbers (line p) (character p + 1) (line p) (character p + 1))
                      (get_property m (Placeholder.placeholder p))
                      (get_property m (Placeholder.placeholder p))))
                   placeholders))"

definition addDecorations ::
    "TextEditor \<Rightarrow> Placeholder list \<Rightarrow> World \<Rightarrow> (Error \<times> World) + World" where
  "addDecorations editor placeholders w =
     (case config (fst w) of
        None \<Rightarrow> Inl (TypeError, w)
      | Some c \<Rightarrow>
          (let width = PlaceholderConfig.width (Config.placeholder c);
               height = PlaceholderConfig.height (Config.placeholder c);
               (decorationType, host) = createTextEditorDecorationType
                  (After (''0 0 0 '' @ toString (1 * - width) @ ''px'')
                         (toString height @ ''px'')
                         (toString (1 * width) @ ''px''))
                  (snd w)
           in case placeholderOptions (placeholderCache (fst w)) placeholders of
                Inl e \<Rightarrow> Inl (e, (fst w, host))
              | Inr options \<Rightarrow>
                  Inr ((fst w)\<lparr>decorations := decorations (fst w) @ [decorationType]\<rparr>,
                       setDecorations editor decorationType options host)))"

definition highlightOptions ::
    "(int \<times> Uri) list option \<Rightarrow> int \<Rightarrow> Placeholder list \<Rightarrow> Error + RangeOrOptions list" where
  "highlightOptions cache highlightCount placeholders =
     (case cache of
        None \<Rightarrow> if placeholders = [] then Inr [] else Inl TypeError
      | Some m \<Rightarrow>
          Inr (map (\<lambda>p. Optioned (DecorationOptions
                      (Range_of_numbers (line p) (character p + 2) (line p) (character p + 2))
                      (get_indexed m highlightCount)
                      (get_indexed m highlightCount)))
                   placeholders))"

definition addHighlights ::
    "TextEditor \<Rightarrow> Placeholder list \<Rightarrow> int \<Rightarrow> World \<Rightarrow> (Error \<times> World) + World" where
  "addHighlights editor placeholders highlightCount w =
     (case config (fst w) of
        None \<Rightarrow> Inl (TypeError, w)
      | Some c \<Rightarrow>
          (let width = PlaceholderConfig.width (Config.placeholder c);
               height = PlaceholderConfig.height (Config.placeholder c);
               (decorationType, host) = createTextEditorDecorationType
                  (After (''0 0 0 '' @ toString (1 * - width) @ ''px'')
                         (toString height @ ''px'')
                         (toString (1 * width) @ ''px''))
                  (snd w)
           in case highlightOptions (highlightCache (fst w)) highlightCount placeholders of
                Inl e \<Rightarrow> Inl (e, (fst w, host))
              | Inr options \<Rightarrow>
                  Inr ((fst w)\<lparr>highlights := highlights (fst w) @ [decorationType]\<rparr>,
                       setDecorations editor decorationType options host)))"

definition undimEditor :: "TextEditor \<Rightarrow> World \<Rightarrow> World" where
  "undimEditor editor w =
     (case dim (fst w) of
        Some d \<Rightarrow> ((fst w)\<lparr>dim := None\<rparr>, dispose d (setDecorations editor d [] (snd w)))
      | None \<Rightarrow> w)"

definition dimEditor :: "TextEditor \<Rightarrow> Range list option \<Rightarrow> World \<Rightarrow> World" where
  "dimEditor editor ranges w =
     (let (this, host) = undimEditor editor w;
          options = TextDecoration ''none; filter: grayscale(1);'';
          (d, host) = createTextEditorDecorationType options host;
          this = this\<lparr>dim := Some d\<rparr>;
          toAddRanges =
            (case ranges of
               Some rs \<Rightarrow>
                 if rs \<noteq> [] then rs
                 else [Range (Position 0 0) (Position (lineCount (document editor)) MAX_VALUE)]
             | None \<Rightarrow>
                 [Range (Position 0 0) (Position (lineCount (document editor)) MAX_VALUE)])
      in (this, setDecorations editor d (map Ranged toAddRanges) host))"

definition removeDecorations :: "TextEditor \<Rightarrow> World \<Rightarrow> World" where
  "removeDecorations editor w =
     ((fst w)\<lparr>decorations := []\<rparr>,
      foldl (\<lambda>host item. dispose item (setDecorations editor item [] host))
            (snd w) (decorations (fst w)))"

definition removeHighlights :: "TextEditor \<Rightarrow> World \<Rightarrow> World" where
  "removeHighlights editor w =
     ((fst w)\<lparr>highlights := []\<rparr>,
      foldl (\<lambda>host item. dispose item (setDecorations editor item [] host))
            (snd w) (highlights (fst w)))"

subsection \<open>Sequences of calls\<close>

text \<open>
  The calls a collaborator can make. A call that throws leaves the state it had reached;
  the next call of a sequence starts from there.
\<close>

datatype Call =
  RefreshConfig Config
| AddDecorations TextEditor "Placeholder list"
| AddHighlights TextEditor "Placeholder list" int
| DimEditor TextEditor "Range list option"
| RemoveDecorations TextEditor
| RemoveHighlights TextEditor
| UndimEditor TextEditor

fun invoke :: "Call \<Rightarrow> World \<Rightarrow> (Error \<times> World) + World" where
  "invoke (RefreshConfig c) w = refreshConfig c w"
| "invoke (AddDecorations editor placeholders) w = addDecorations editor placeholders w"
| "invoke (AddHighlights editor placeholders n) w = addHighlights editor placeholders n w"
| "invoke (DimEditor editor ranges) w = Inr (dimEditor editor ranges w)"
| "invoke (RemoveDecorations editor) w = Inr (removeDecorations editor w)"
| "invoke (RemoveHighlights editor) w = Inr (removeHighlights editor w)"
| "invoke (UndimEditor editor) w = Inr (undimEditor editor w)"

fun settle :: "(Error \<times> World) + World \<Rightarrow> World" where
  "settle (Inl (e, w)) = w"
| "settle (Inr w) = w"

definition run :: "Call list \<Rightarrow> World \<Rightarrow> World" where
  "run calls w = foldl (\<lambda>w c. settle (invoke c w)) w calls"

definition new_World :: World where
  "new_World = (new_PlaceHolderDecorator, new_Host)"

subsection \<open>Observations and examples\<close>

fun isRefreshConfig :: "Call \<Rightarrow> bool" where
  "isRefreshConfig (RefreshConfig c) = True"
| "isRefreshConfig _ = False"

fun isAddDecorations :: "Call \<Rightarrow> bool" where
  "isAddDecorations (AddDecorations editor placeholders) = True"
| "isAddDecorations _ = False"

fun isRemoveDecorations :: "Call \<Rightarrow> bool" where
  "isRemoveDecorations (RemoveDecorations editor) = True"
| "isRemoveDecorations _ = False"

fun isAddHighlights :: "Call \<Rightarrow> bool" where
  "isAddHighlights (AddHighlights editor placeholders n) = True"
| "isAddHighlights _ = False"

fun isRemoveHighlights :: "Call \<Rightarrow> bool" where
  "isRemoveHighlights (RemoveHighlights editor) = True"
| "isRemoveHighlights _ = False"

text \<open>The events the host received between an earlier and a later state.\<close>

definition events_since :: "World \<Rightarrow> World \<Rightarrow> Event list" where
  "events_since w w' = drop (length (journal (snd w))) (journal (snd w'))"

fun range_of :: "RangeOrOptions \<Rightarrow> Range" where
  "range_of (Ranged r) = r"
| "range_of (Optioned (DecorationOptions r dark light)) = r"

text \<open>The icon of a binding under the dark and under the light theme.\<close>

fun icons_of :: "RangeOrOptions \<Rightarrow> Icon option \<times> Icon option" where
  "icons_of (Ranged r) = (None, None)"
| "icons_of (Optioned (DecorationOptions r dark light)) = (dark, light)"

text \<open>
  How a reader of the markup reads it back: a decimal numeral, with an optional minus
  sign, as the number it denotes, and escaped text as the text it stands for.
\<close>

definition digit_of :: "char \<Rightarrow> nat option" where
  "digit_of c = map_of (zip ''0123456789'' [0, 1, 2, 3, 4, 5, 6, 7, 8, 9]) c"

fun read_digits :: "nat \<Rightarrow> string \<Rightarrow> nat option" where
  "read_digits acc [] = Some acc"
| "read_digits acc (c # cs) =
     (case digit_of c of None \<Rightarrow> None | Some d \<Rightarrow> read_digits (10 * acc + d) cs)"

definition number_of :: "string \<Rightarrow> int option" where
  "number_of s =
     (case s of
        [] \<Rightarrow> None
      | c # cs \<Rightarrow>
          if c = CHR ''-''
          then (if cs = [] then None else map_option (\<lambda>n. - int n) (read_digits 0 cs))
          else map_option int (read_digits 0 s))"

fun unescape :: "string \<Rightarrow> string" where
  "unescape [] = []"
| "unescape (c # cs) =
     (if c = CHR ''&'' then
        (if take 4 cs = ''amp;'' then CHR ''&'' # unescape (drop 4 cs)
         else if take 3 cs = ''lt;'' then CHR ''<'' # unescape (drop 3 cs)
         else if take 3 cs = ''gt;'' then CHR ''>'' # unescape (drop 3 cs)
         else if take 5 cs = ''quot;'' then CHR 0x22 # unescape (drop 5 cs)
         else if take 4 cs = ''#x9;'' then CHR 0x09 # unescape (drop 4 cs)
         else if take 4 cs = ''#xA;'' then CHR 0x0A # unescape (drop 4 cs)
         else if take 4 cs = ''#xD;'' then CHR 0x0D # unescape (drop 4 cs)
         else c # unescape cs)
      else c # unescape cs)"

text \<open>The clearing and the release of one handle, as the host sees them.\<close>

definition cleared_and_released :: "TextEditor \<Rightarrow> TextEditorDecorationType \<Rightarrow> Event list" where
  "cleared_and_released editor item = [SetDecorations editor item [], Disposed item]"

definition example_config :: Config where
  "example_config =
     \<lparr>characters = [''a'', ''s'', ''d''],
      Config.placeholder =
        \<lparr>PlaceholderConfig.width = 12, PlaceholderConfig.height = 14,
         PlaceholderConfig.backgroundColor = ''yellow'', color = ''black'',
         fontFamily = ''Consolas'', fontWeight = ''normal'', fontSize = 14,
         textPosX = 2, textPosY = 12, upperCase = True\<rparr>,
      highlight =
        \<lparr>HighlightConfig.width = 6, HighlightConfig.height = 14,
         HighlightConfig.backgroundColor = ''blue'', offsetX = 0, offsetY = 0\<rparr>\<rparr>"

definition example_editor :: TextEditor where
  "example_editor = \<lparr>ident = 0, document = \<lparr>lineCount = 40\<rparr>\<rparr>"

definition example_targets :: "Placeholder list" where
  "example_targets =
     [\<lparr>line = 3, character = 5, Placeholder.placeholder = ''s''\<rparr>,
      \<lparr>line = 7, character = 0, Placeholder.placeholder = ''x''\<rparr>]"

text \<open>Every handle the decorator holds on to, in its three categories.\<close>

definition tracked :: "PlaceHolderDecorator \<Rightarrow> TextEditorDecorationType list" where
  "tracked this =
     decorations this @ highlights this @ (case dim this of None \<Rightarrow> [] | Some d \<Rightarrow> [d])"

fun allocated_before :: "nat \<Rightarrow> TextEditorDecorationType \<Rightarrow> bool" where
  "allocated_before k (DecorationType i) = (i < k)"

text \<open>
  The tracked handles are pairwise different and each was allocated before the next one
  the window will hand out.
\<close>

definition handles_distinct :: "World \<Rightarrow> bool" where
  "handles_distinct w =
     (distinct (tracked (fst w)) \<and> list_all (allocated_before (allocated (snd w))) (tracked (fst w)))"

text \<open>The state a completed \<^verbatim>\<open>refreshConfig\<close> leaves: configuration and caches are set.\<close>

definition ready :: "World \<Rightarrow> bool" where
  "ready w = (config (fst w) \<noteq> None \<and> placeholderCache (fst w) \<noteq> None \<and>
              highlightCache (fst w) \<noteq> None)"

definition caches_built :: "World \<Rightarrow> bool" where
  "caches_built w = (config (fst w) = None \<or> ready w)"

definition example_session :: "Call list" where
  "example_session =
     [RefreshConfig example_config,
      AddDecorations example_editor example_targets,
      AddHighlights example_editor example_targets 2,
      DimEditor example_editor None]"

definition example_adds :: "Call list" where
  "example_adds =
     [AddDecorations example_editor example_targets,
      AddHighlights example_editor example_targets 11,
      AddDecorations example_editor [],
      AddDecorations example_editor example_targets]"

section \<open>The glyph builder builds what it is configured to\<close>

lemma toString_2: "toString 2 = ''2''"
  by (simp add: toString_def digits.simps)

lemma toString_examples:
  "toString 12 = ''12''" "toString 14 = ''14''" "toString (- 12) = ''-12''"
  by code_simp+

subsection \<open>Numerals denote their number, escaped text stands for its text\<close>

lemma digit_of_nth: "k < 10 \<Longrightarrow> digit_of (''0123456789'' ! k) = Some k"
proof -
  assume "k < 10"
  then have "k \<in> {0, 1, 2, 3, 4, 5, 6, 7, 8, 9}" by auto
  then show ?thesis by (auto simp: digit_of_def)
qed

lemma read_digits_append:
  "read_digits acc (xs @ ys) =
     (case read_digits acc xs of None \<Rightarrow> None | Some a \<Rightarrow> read_digits a ys)"
  by (induction xs arbitrary: acc) (simp_all split: option.splits)

lemma read_digits_digits: "read_digits 0 (digits n) = Some n"
proof (induction n rule: digits.induct)
  case (1 n)
  show ?case
  proof (cases "n < 10")
    case True
    then show ?thesis by (simp add: digits.simps [of n] digit_of_nth)
  next
    case False
    with 1 have "read_digits 0 (digits (n div 10)) = Some (n div 10)" by simp
    with False show ?thesis
      by (simp add: digits.simps [of n] read_digits_append digit_of_nth)
  qed
qed

lemma digits_first: "\<exists>c cs. digits n = c # cs \<and> digit_of c \<noteq> None"
proof (induction n rule: digits.induct)
  case (1 n)
  show ?case
  proof (cases "n < 10")
    case True
    then show ?thesis by (simp add: digits.simps [of n] digit_of_nth)
  next
    case False
    with 1 obtain c cs where "digits (n div 10) = c # cs" "digit_of c \<noteq> None" by auto
    with False show ?thesis by (simp add: digits.simps [of n])
  qed
qed

lemma digit_of_minus: "digit_of CHR ''-'' = None"
  by (simp add: digit_of_def)

lemma number_of_toString: "number_of (toString n) = Some n"
proof (cases "n < 0")
  case True
  obtain c cs where "digits (nat (- n)) = c # cs" using digits_first by blast
  with True read_digits_digits [of "nat (- n)"] show ?thesis
    by (simp add: number_of_def toString_def)
next
  case False
  obtain c cs where d: "digits (nat n) = c # cs" "digit_of c \<noteq> None"
    using digits_first by blast
  then have "c \<noteq> CHR ''-''" using digit_of_minus by auto
  with False d read_digits_digits [of "nat n"] show ?thesis
    by (simp add: number_of_def toString_def)
qed

lemma unescape_attEscape: "unescape (attEscape s) = s"
  by (induction s) (simp_all add: attEscape_def)


lemma attEscape_append: "attEscape (a @ b) = attEscape a @ attEscape b"
  by (simp add: attEscape_def)









lemma digits_chars: "set (digits n) \<subseteq> set ''0123456789''"
proof (induction n rule: digits.induct)
  case (1 n)
  have nth: "''0123456789'' ! k \<in> set ''0123456789''" if "k < 10" for k
    using that nth_mem [of k "''0123456789''"] by simp
  show ?case
  proof (cases "n < 10")
    case True
    then show ?thesis using nth [of n] by (simp add: digits.simps [of n])
  next
    case False
    with 1 have "set (digits (n div 10)) \<subseteq> set ''0123456789''" by simp
    with False show ?thesis using nth [of "n mod 10"] by (simp add: digits.simps [of n])
  qed
qed

lemma toString_chars: "set (toString n) \<subseteq> set ''-0123456789''"
proof -
  define D where "D = set ''0123456789''"
  have m: "set ''-0123456789'' = insert CHR ''-'' D"
    unfolding D_def by (simp only: list.set)
  have d: "set (digits k) \<subseteq> D" for k
    unfolding D_def by (rule digits_chars)
  show ?thesis
  proof (cases "n < 0")
    case True
    then have "set (toString n) = insert CHR ''-'' (set (digits (nat (- n))))"
      by (simp only: toString_def if_True list.set)
    with d [of "nat (- n)"] show ?thesis unfolding m by blast
  next
    case False
    then have "set (toString n) = set (digits (nat n))"
      by (simp only: toString_def if_False)
    with d [of "nat n"] show ?thesis unfolding m by blast
  qed
qed

lemma attEscape_literals:
  "attEscape [] = []"
  "attEscape (c # s) =
     (if c = CHR ''&'' then ''&amp;''
      else if c = CHR ''<'' then ''&lt;''
      else if c = CHR 0x22 then ''&quot;''
      else if c = CHR 0x09 then ''&#x9;''
      else if c = CHR 0x0A then ''&#xA;''
      else if c = CHR 0x0D then ''&#xD;''
      else [c]) @ attEscape s"
  by (simp_all add: attEscape_def)

lemma attEscape_plain: "set s \<subseteq> set ''-0123456789'' \<Longrightarrow> attEscape s = s"
proof (induction s)
  case Nil
  show ?case by (simp add: attEscape_literals)
next
  case (Cons c s)
  then have "attEscape s = s" by simp
  moreover from Cons.prems have "c \<in> set ''-0123456789''" by simp
  then have "c \<noteq> CHR ''&'' \<and> c \<noteq> CHR ''<'' \<and> c \<noteq> CHR 0x22 \<and> c \<noteq> CHR 0x09 \<and>
             c \<noteq> CHR 0x0A \<and> c \<noteq> CHR 0x0D"
    by auto
  ultimately show ?case by (simp add: attEscape_literals)
qed

lemma attEscape_toString: "attEscape (toString n) = toString n"
  by (rule attEscape_plain) (rule toString_chars)

subsection \<open>The two resources\<close>



text \<open>
  Claim C9. For every character count and configuration, the resource
  \<^verbatim>\<open>buildUriForHighlight\<close> returns is the data URI whose text is the prefix
  \<^verbatim>\<open>data:image/svg+xml;utf8,\<close> followed by an \<^verbatim>\<open>svg\<close> element of width
  \<^verbatim>\<open>highlight.width * characterCount\<close> and height \<^verbatim>\<open>highlight.height\<close>, whose view
  box starts at (\<^verbatim>\<open>offsetX\<close>, \<^verbatim>\<open>offsetY\<close>), and whose only content is one
  \<^verbatim>\<open>rect\<close> of the canvas size with corner radius 2 filled in the highlight
  background colour; there is no text element. Every numeral in the markup reads back as
  the number it was computed from, and the escaped colour reads back as the configured
  colour.
\<close>

theorem buildUriForHighlight_bar:
  \<open>let h = highlight cfg;
       W = toString (HighlightConfig.width h * n);
       H = toString (HighlightConfig.height h);
       X = toString (offsetX h);
       Y = toString (offsetY h);
       bg = attEscape (HighlightConfig.backgroundColor h)
   in buildUriForHighlight cfg n =
        Uri_parse (''data:image/svg+xml;utf8,''
          @ ''<svg xmlns="http://www.w3.org/2000/svg" viewBox="'' @ X @ '' '' @ Y
          @ '' '' @ W @ '' '' @ H
          @ ''" width="'' @ W @ ''" height="'' @ H @ ''">''
          @ ''<rect width="'' @ W @ ''" height="'' @ H
          @ ''" rx="2" ry="2" style="fill: '' @ bg @ ''"/>''
          @ ''</svg>'')
      \<and> number_of W = Some (HighlightConfig.width h * n)
      \<and> number_of H = Some (HighlightConfig.height h)
      \<and> number_of X = Some (offsetX h)
      \<and> number_of Y = Some (offsetY h)
      \<and> unescape bg = HighlightConfig.backgroundColor h\<close>
  unfolding Let_def
  by (simp add: buildUriForHighlight_def highlight_svg_def create_def Let_def attribute_def
      attEscape_append attEscape_toString attEscape_literals toString_2 number_of_toString
      unescape_attEscape)

text \<open>
  The bar for three characters under the example configuration (a highlight 6 wide per
  character and 14 high).
\<close>

lemma example_bar_markup:
  \<open>buildUriForHighlight example_config 3 =
     Uri_parse (''data:image/svg+xml;utf8,<svg xmlns="http://www.w3.org/2000/svg" viewBox="0 0 18 14" width="18" height="14">''
       @ ''<rect width="18" height="14" rx="2" ry="2" style="fill: blue"/></svg>'')\<close>
  by code_simp

section \<open>Rebuilding the caches\<close>

text \<open>
  A cache is a plain object used as a dictionary, with the configured codes and the widths
  1 to 10 as keys. The association list holds its own properties, which are the ones
  \<^verbatim>\<open>updateCache\<close> assigns; the members every object inherits come in when a
  property is read (\<^const>\<open>get_property\<close>).
\<close>

lemma map_of_foldl_update:
  "map_of (foldl (\<lambda>acc k. AList.update k (f k) acc) acc0 ks) x =
     (if x \<in> set ks then Some (f x) else map_of acc0 x)"
  by (induction ks arbitrary: acc0) (auto simp: update_conv')

lemma keys_foldl_update:
  "set (map fst (foldl (\<lambda>acc k. AList.update k (f k) acc) acc0 ks)) = set (map fst acc0) \<union> set ks"
  by (induction ks arbitrary: acc0) (auto simp: dom_update)

lemma distinct_foldl_update:
  "distinct (map fst acc0) \<Longrightarrow>
   distinct (map fst (foldl (\<lambda>acc k. AList.update k (f k) acc) acc0 ks))"
  by (induction ks arbitrary: acc0) (auto simp: distinct_update)

lemma widths_1_to_10: "set (map (\<lambda>i. int i + 1) [0..<10]) = {1..10}"
proof -
  have "set (map (\<lambda>i. int i + 1) [0..<10]) = (\<lambda>i. int i + 1) ` {0..<10}" by simp
  also have "\<dots> = {1..10}"
  proof (rule set_eqI)
    fix x :: int
    show "x \<in> (\<lambda>i. int i + 1) ` {0..<10} \<longleftrightarrow> x \<in> {1..10}"
    proof
      assume "x \<in> (\<lambda>i. int i + 1) ` {0..<10}"
      then show "x \<in> {1..10}" by auto
    next
      assume "x \<in> {1..10}"
      then have "nat (x - 1) \<in> {0..<10}" and "x = int (nat (x - 1)) + 1" by auto
      then show "x \<in> (\<lambda>i. int i + 1) ` {0..<10}" by blast
    qed
  qed
  finally show ?thesis .
qed

lemma refreshConfig_returns:
  "refreshConfig c w =
     Inr ((fst w)\<lparr>config := Some c,
             placeholderCache :=
               Some (foldl (\<lambda>acc code. AList.update code (buildUriForPlaceholder c code) acc)
                           [] (characters c)),
             highlightCache :=
               Some (foldl (\<lambda>acc width. AList.update width (buildUriForHighlight c width) acc)
                           [] (map (\<lambda>i. int i + 1) [0..<10]))\<rparr>, snd w)"
  by (simp add: refreshConfig_def updateCache_def Let_def)


text \<open>Only \<^verbatim>\<open>refreshConfig\<close> writes the configuration and the caches.\<close>

lemma settle_addDecorations_this:
  "config (fst (settle (addDecorations e ps w))) = config (fst w) \<and>
   placeholderCache (fst (settle (addDecorations e ps w))) = placeholderCache (fst w) \<and>
   highlightCache (fst (settle (addDecorations e ps w))) = highlightCache (fst w)"
  by (simp add: addDecorations_def Let_def createTextEditorDecorationType_def
      split: option.splits sum.splits)

lemma settle_addHighlights_this:
  "config (fst (settle (addHighlights e ps n w))) = config (fst w) \<and>
   placeholderCache (fst (settle (addHighlights e ps n w))) = placeholderCache (fst w) \<and>
   highlightCache (fst (settle (addHighlights e ps n w))) = highlightCache (fst w)"
  by (simp add: addHighlights_def Let_def createTextEditorDecorationType_def
      split: option.splits sum.splits)

lemma undimEditor_this:
  "config (fst (undimEditor e w)) = config (fst w) \<and>
   placeholderCache (fst (undimEditor e w)) = placeholderCache (fst w) \<and>
   highlightCache (fst (undimEditor e w)) = highlightCache (fst w)"
  by (simp add: undimEditor_def split: option.splits)

lemma dimEditor_this:
  "config (fst (dimEditor e rs w)) = config (fst w) \<and>
   placeholderCache (fst (dimEditor e rs w)) = placeholderCache (fst w) \<and>
   highlightCache (fst (dimEditor e rs w)) = highlightCache (fst w)"
  using undimEditor_this [of e w]
  by (auto simp add: dimEditor_def Let_def createTextEditorDecorationType_def split: prod.splits)

lemma invoke_keeps_caches:
  "\<not> isRefreshConfig c \<Longrightarrow>
   config (fst (settle (invoke c w))) = config (fst w) \<and>
   placeholderCache (fst (settle (invoke c w))) = placeholderCache (fst w) \<and>
   highlightCache (fst (settle (invoke c w))) = highlightCache (fst w)"
  by (cases c)
     (simp_all add: settle_addDecorations_this settle_addHighlights_this undimEditor_this
        dimEditor_this removeDecorations_def removeHighlights_def)

lemma run_Nil: "run [] w = w"
  by (simp add: run_def)

lemma run_Cons: "run (c # cs) w = run cs (settle (invoke c w))"
  by (simp add: run_def)

lemma run_keeps_caches:
  "\<forall>c\<in>set cs. \<not> isRefreshConfig c \<Longrightarrow>
   config (fst (run cs w)) = config (fst w) \<and>
   placeholderCache (fst (run cs w)) = placeholderCache (fst w) \<and>
   highlightCache (fst (run cs w)) = highlightCache (fst w)"
proof (induction cs arbitrary: w)
  case Nil
  show ?case by (simp add: run_Nil)
next
  case (Cons c cs)
  then show ?case using invoke_keeps_caches [of c w] by (simp add: run_Cons)
qed

lemma run_after_refresh:
  assumes "\<forall>c\<in>set cs. \<not> isRefreshConfig c"
  shows "config (fst (run (RefreshConfig c # cs) w)) = Some c"
    and "placeholderCache (fst (run (RefreshConfig c # cs) w)) =
           Some (foldl (\<lambda>acc code. AList.update code (buildUriForPlaceholder c code) acc)
                       [] (characters c))"
    and "highlightCache (fst (run (RefreshConfig c # cs) w)) =
           Some (foldl (\<lambda>acc width. AList.update width (buildUriForHighlight c width) acc)
                       [] (map (\<lambda>i. int i + 1) [0..<10]))"
  using run_keeps_caches [OF assms, of "settle (refreshConfig c w)"]
  by (simp_all add: run_Cons refreshConfig_returns)

lemma no_refresh_Nil: "\<forall>call\<in>set []. \<not> isRefreshConfig call"
  by simp


text \<open>
  Claim C1. A call of \<^verbatim>\<open>refreshConfig\<close> returns without an error from any state.
  After it, and after any further calls that are not a \<^verbatim>\<open>refreshConfig\<close>, the
  configuration is the one passed in, the placeholder cache has exactly one entry for
  every code of \<^verbatim>\<open>config.characters\<close> and no other key, the highlight cache has
  exactly one entry for every width from 1 to 10 and no other key, and every entry is the
  resource built from that configuration. Nothing of the state before the call enters
  the caches, so every later \<^verbatim>\<open>add*\<close> call reads the caches of the latest refresh.
\<close>

theorem refreshConfig_rebuilds_caches:
  assumes "\<forall>call\<in>set later. \<not> isRefreshConfig call"
  shows "(\<exists>w'. refreshConfig c w = Inr w') \<and>
         config (fst (run (RefreshConfig c # later) w)) = Some c \<and>
         (\<exists>pc hc.
            placeholderCache (fst (run (RefreshConfig c # later) w)) = Some pc \<and>
            highlightCache (fst (run (RefreshConfig c # later) w)) = Some hc \<and>
            distinct (map fst pc) \<and> set (map fst pc) = set (characters c) \<and>
            (\<forall>code\<in>set (characters c). map_of pc code = Some (buildUriForPlaceholder c code)) \<and>
            distinct (map fst hc) \<and> set (map fst hc) = {1..10} \<and>
            (\<forall>n\<in>{1..10}. map_of hc n = Some (buildUriForHighlight c n)))"
proof -
  let ?pc = "foldl (\<lambda>acc code. AList.update code (buildUriForPlaceholder c code) acc)
                       [] (characters c)"
  let ?hc = "foldl (\<lambda>acc width. AList.update width (buildUriForHighlight c width) acc)
                       [] (map (\<lambda>i. int i + 1) [0..<10])"
  have p: "distinct (map fst ?pc)" "set (map fst ?pc) = set (characters c)"
    "\<forall>code\<in>set (characters c). map_of ?pc code = Some (buildUriForPlaceholder c code)"
    using distinct_foldl_update [of "[]" "buildUriForPlaceholder c" "characters c"]
      keys_foldl_update [of "buildUriForPlaceholder c" "[]" "characters c"]
    by (simp_all add: map_of_foldl_update)
  have h: "distinct (map fst ?hc)" "set (map fst ?hc) = {1..10}"
    "\<forall>n\<in>{1..10}. map_of ?hc n = Some (buildUriForHighlight c n)"
    using distinct_foldl_update [of "[]" "buildUriForHighlight c" "map (\<lambda>i. int i + 1) [0..<10]"]
      keys_foldl_update [of "buildUriForHighlight c" "[]" "map (\<lambda>i. int i + 1) [0..<10]"]
      widths_1_to_10
    by (simp_all add: map_of_foldl_update del: set_map upt.simps)
  show ?thesis
    using run_after_refresh [OF assms, of c w] p h
    by (simp add: refreshConfig_returns)
qed

theorem refreshConfig_rebuilds_caches_witness:
  "(\<exists>w'. refreshConfig example_config new_World = Inr w') \<and>
   config (fst (run (RefreshConfig example_config # tl example_session) new_World)) =
     Some example_config \<and>
   (\<exists>pc hc.
      placeholderCache (fst (run (RefreshConfig example_config # tl example_session) new_World)) =
        Some pc \<and>
      highlightCache (fst (run (RefreshConfig example_config # tl example_session) new_World)) =
        Some hc \<and>
      distinct (map fst pc) \<and> set (map fst pc) = set (characters example_config) \<and>
      (\<forall>code\<in>set (characters example_config).
         map_of pc code = Some (buildUriForPlaceholder example_config code)) \<and>
      distinct (map fst hc) \<and> set (map fst hc) = {1..10} \<and>
      (\<forall>n\<in>{1..10}. map_of hc n = Some (buildUriForHighlight example_config n)))"
proof -
  have "\<forall>call\<in>set (tl example_session). \<not> isRefreshConfig call"
    by (simp add: example_session_def)
  then show ?thesis
    by (rule refreshConfig_rebuilds_caches)
qed


section \<open>Applying placeholders and highlights\<close>

text \<open>What the two \<^verbatim>\<open>add*\<close> methods return once configuration and cache are set.\<close>

lemma addDecorations_returns:
  assumes "config (fst w) = Some c" "placeholderCache (fst w) = Some pc"
  shows "addDecorations e ps w =
     Inr ((fst w)\<lparr>decorations := decorations (fst w) @ [DecorationType (allocated (snd w))]\<rparr>,
          (snd w)\<lparr>allocated := Suc (allocated (snd w)),
            journal := journal (snd w) @
              [Created (DecorationType (allocated (snd w)))
                 (After (''0 0 0 '' @ toString (- PlaceholderConfig.width (Config.placeholder c)) @ ''px'')
                        (toString (PlaceholderConfig.height (Config.placeholder c)) @ ''px'')
                        (toString (PlaceholderConfig.width (Config.placeholder c)) @ ''px'')),
               SetDecorations e (DecorationType (allocated (snd w)))
                 (map (\<lambda>p. Optioned (DecorationOptions
                        (Range (Position (line p) (character p + 1))
                               (Position (line p) (character p + 1)))
                        (get_property pc (Placeholder.placeholder p))
                        (get_property pc (Placeholder.placeholder p)))) ps)]\<rparr>)"
  using assms
  by (simp add: addDecorations_def placeholderOptions_def createTextEditorDecorationType_def
      setDecorations_def Range_of_numbers_def Let_def)

lemma addHighlights_returns:
  assumes "config (fst w) = Some c" "highlightCache (fst w) = Some hc"
  shows "addHighlights e ps n w =
     Inr ((fst w)\<lparr>highlights := highlights (fst w) @ [DecorationType (allocated (snd w))]\<rparr>,
          (snd w)\<lparr>allocated := Suc (allocated (snd w)),
            journal := journal (snd w) @
              [Created (DecorationType (allocated (snd w)))
                 (After (''0 0 0 '' @ toString (- PlaceholderConfig.width (Config.placeholder c)) @ ''px'')
                        (toString (PlaceholderConfig.height (Config.placeholder c)) @ ''px'')
                        (toString (PlaceholderConfig.width (Config.placeholder c)) @ ''px'')),
               SetDecorations e (DecorationType (allocated (snd w)))
                 (map (\<lambda>p. Optioned (DecorationOptions
                        (Range (Position (line p) (character p + 2))
                               (Position (line p) (character p + 2)))
                        (get_indexed hc n) (get_indexed hc n))) ps)]\<rparr>)"
  using assms
  by (simp add: addHighlights_def highlightOptions_def createTextEditorDecorationType_def
      setDecorations_def Range_of_numbers_def Let_def)


text \<open>
  Claim C2. Once the configuration and the caches are set, \<^verbatim>\<open>addDecorations\<close>
  returns without an error and the batch it binds to its new handle has, for every target
  at line \<open>L\<close> and column \<open>C\<close>, in order, the zero-width range from \<open>(L, C + 1)\<close> to
  \<open>(L, C + 1)\<close>; \<^verbatim>\<open>addHighlights\<close> does the same with the zero-width range at
  \<open>(L, C + 2)\<close>, one column further right.
\<close>

theorem anchors_one_and_two_columns_right:
  assumes "config (fst w) = Some c"
    and "placeholderCache (fst w) = Some pc"
    and "highlightCache (fst w) = Some hc"
  shows "(\<exists>w' bound. addDecorations e ps w = Inr w' \<and>
            last (journal (snd w')) = SetDecorations e (last (decorations (fst w'))) bound \<and>
            map range_of bound =
              map (\<lambda>p. Range (Position (line p) (character p + 1))
                              (Position (line p) (character p + 1))) ps) \<and>
         (\<exists>w' bound. addHighlights e ps n w = Inr w' \<and>
            last (journal (snd w')) = SetDecorations e (last (highlights (fst w'))) bound \<and>
            map range_of bound =
              map (\<lambda>p. Range (Position (line p) (character p + 2))
                              (Position (line p) (character p + 2))) ps)"
  by (simp add: addDecorations_returns [OF assms(1,2)] addHighlights_returns [OF assms(1,3)]
      comp_def)

theorem anchors_one_and_two_columns_right_witness:
  "(\<exists>w' bound.
      addDecorations example_editor example_targets (run [RefreshConfig example_config] new_World)
        = Inr w' \<and>
      last (journal (snd w')) = SetDecorations example_editor (last (decorations (fst w'))) bound \<and>
      map range_of bound =
        [Range (Position 3 6) (Position 3 6), Range (Position 7 1) (Position 7 1)]) \<and>
   (\<exists>w' bound.
      addHighlights example_editor example_targets 2 (run [RefreshConfig example_config] new_World)
        = Inr w' \<and>
      last (journal (snd w')) = SetDecorations example_editor (last (highlights (fst w'))) bound \<and>
      map range_of bound =
        [Range (Position 3 7) (Position 3 7), Range (Position 7 2) (Position 7 2)])"
proof -
  note r = run_after_refresh [OF no_refresh_Nil, of example_config new_World]
  show ?thesis
    using anchors_one_and_two_columns_right [OF r, of example_editor example_targets 2]
    by (simp add: example_targets_def)
qed


lemma get_property_of_cache:
  "get_property (foldl (\<lambda>acc code. AList.update code (f code) acc) [] codes) key =
     (if key \<in> set codes then Some (Resource (f key))
      else if key \<in> set Object_prototype then Some (Inherited key) else None)"
  by (simp add: get_property_def map_of_foldl_update)

lemma get_indexed_of_cache:
  "get_indexed (foldl (\<lambda>acc width. AList.update width (f width) acc) []
                  (map (\<lambda>i. int i + 1) [0..<10])) n =
     (if 1 \<le> n \<and> n \<le> 10 then Some (Resource (f n)) else None)"
proof -
  have "n \<in> set (map (\<lambda>i. int i + 1) [0..<10]) \<longleftrightarrow> 1 \<le> n \<and> n \<le> 10"
    unfolding widths_1_to_10 by simp
  then show ?thesis
    unfolding get_indexed_def map_of_foldl_update by simp
qed

text \<open>
  Claim C3, as amended. The claim says that every code outside the configured characters
  is bound to an absent resource. The cache is an object created by \<^verbatim>\<open>{}\<close>, so
  reading it at a name such as \<^verbatim>\<open>constructor\<close> yields the member every object
  inherits. What holds in any state reached after \<^verbatim>\<open>refreshConfig(c)\<close> with no later
  refresh: \<^verbatim>\<open>addDecorations\<close> raises no error and binds one entry per target, each on
  its own: the cached resource of the target's code when the code is among
  \<^verbatim>\<open>c.characters\<close>, and an absent resource when the code is neither among them nor
  the name of a member of \<^verbatim>\<open>Object.prototype\<close>. \<^verbatim>\<open>addHighlights\<close> raises no error
  and binds every target of the batch to the one cached resource of
  \<^verbatim>\<open>highlightCount\<close> when that is between 1 and 10, and to an absent resource when it
  is not (0 and 11 included).
\<close>

theorem cache_miss_is_fail_soft:
  assumes "\<forall>call\<in>set later. \<not> isRefreshConfig call"
  shows "(\<exists>w' bound. addDecorations e ps (run (RefreshConfig c # later) w) = Inr w' \<and>
            last (journal (snd w')) = SetDecorations e (last (decorations (fst w'))) bound \<and>
            length bound = length ps \<and>
            (\<forall>i<length ps.
               (Placeholder.placeholder (ps ! i) \<in> set (characters c) \<longrightarrow>
                  icons_of (bound ! i) =
                    (Some (Resource (buildUriForPlaceholder c (Placeholder.placeholder (ps ! i)))),
                     Some (Resource (buildUriForPlaceholder c (Placeholder.placeholder (ps ! i)))))) \<and>
               (Placeholder.placeholder (ps ! i) \<notin> set (characters c) \<and>
                Placeholder.placeholder (ps ! i) \<notin> set Object_prototype \<longrightarrow>
                  icons_of (bound ! i) = (None, None)))) \<and>
         (\<exists>w' bound. addHighlights e ps n (run (RefreshConfig c # later) w) = Inr w' \<and>
            last (journal (snd w')) = SetDecorations e (last (highlights (fst w'))) bound \<and>
            map icons_of bound =
              map (\<lambda>p. if 1 \<le> n \<and> n \<le> 10
                        then (Some (Resource (buildUriForHighlight c n)),
                              Some (Resource (buildUriForHighlight c n)))
                        else (None, None)) ps)"
proof -
  note r = run_after_refresh [OF assms, of c w]
  show ?thesis
    unfolding addDecorations_returns [OF r(1,2)] addHighlights_returns [OF r(1,3)]
      get_property_of_cache get_indexed_of_cache
    by (simp add: comp_def)
qed

theorem cache_miss_is_fail_soft_witness:
  "(\<exists>w' bound.
      addDecorations example_editor example_targets (run [RefreshConfig example_config] new_World)
        = Inr w' \<and>
      last (journal (snd w')) = SetDecorations example_editor (last (decorations (fst w'))) bound \<and>
      length bound = 2 \<and>
      icons_of (bound ! 0) =
        (Some (Resource (buildUriForPlaceholder example_config ''s'')),
         Some (Resource (buildUriForPlaceholder example_config ''s''))) \<and>
      icons_of (bound ! 1) = (None, None)) \<and>
   (\<exists>w' bound.
      addHighlights example_editor example_targets 11 (run [RefreshConfig example_config] new_World)
        = Inr w' \<and>
      last (journal (snd w')) = SetDecorations example_editor (last (highlights (fst w'))) bound \<and>
      map icons_of bound = [(None, None), (None, None)])"
proof -
  from cache_miss_is_fail_soft [OF no_refresh_Nil, of example_editor example_targets
      example_config new_World 11]
  obtain w' bound w'' bound' where
    d: "addDecorations example_editor example_targets
          (run [RefreshConfig example_config] new_World) = Inr w'"
      "last (journal (snd w')) = SetDecorations example_editor (last (decorations (fst w'))) bound"
      "length bound = length example_targets"
    and each: "\<forall>i<length example_targets.
       (Placeholder.placeholder (example_targets ! i) \<in> set (characters example_config) \<longrightarrow>
          icons_of (bound ! i) =
            (Some (Resource (buildUriForPlaceholder example_config
                               (Placeholder.placeholder (example_targets ! i)))),
             Some (Resource (buildUriForPlaceholder example_config
                               (Placeholder.placeholder (example_targets ! i)))))) \<and>
       (Placeholder.placeholder (example_targets ! i) \<notin> set (characters example_config) \<and>
        Placeholder.placeholder (example_targets ! i) \<notin> set Object_prototype \<longrightarrow>
          icons_of (bound ! i) = (None, None))"
    and h: "addHighlights example_editor example_targets 11
          (run [RefreshConfig example_config] new_World) = Inr w''"
      "last (journal (snd w'')) =
         SetDecorations example_editor (last (highlights (fst w''))) bound'"
      "map icons_of bound' =
         map (\<lambda>p. if (1::int) \<le> 11 \<and> (11::int) \<le> 10
                   then (Some (Resource (buildUriForHighlight example_config 11)),
                         Some (Resource (buildUriForHighlight example_config 11)))
                   else (None, None)) example_targets"
    by blast
  from each have first: "icons_of (bound ! 0) =
        (Some (Resource (buildUriForPlaceholder example_config ''s'')),
         Some (Resource (buildUriForPlaceholder example_config ''s'')))"
    by (simp add: example_targets_def example_config_def)
  from each have second: "icons_of (bound ! 1) = (None, None)"
    by (simp add: example_targets_def example_config_def Object_prototype_def)
  from h(3) have none: "map icons_of bound' = [(None, None), (None, None)]"
    by (simp add: example_targets_def)
  from d(3) have two: "length bound = 2"
    by (simp add: example_targets_def)
  show ?thesis
  proof (intro conjI)
    show "\<exists>w' bound.
      addDecorations example_editor example_targets (run [RefreshConfig example_config] new_World)
        = Inr w' \<and>
      last (journal (snd w')) = SetDecorations example_editor (last (decorations (fst w'))) bound \<and>
      length bound = 2 \<and>
      icons_of (bound ! 0) =
        (Some (Resource (buildUriForPlaceholder example_config ''s'')),
         Some (Resource (buildUriForPlaceholder example_config ''s''))) \<and>
      icons_of (bound ! 1) = (None, None)"
      using d(1,2) two first second by (intro exI [of _ w'] exI [of _ bound]) simp
    show "\<exists>w' bound.
      addHighlights example_editor example_targets 11 (run [RefreshConfig example_config] new_World)
        = Inr w' \<and>
      last (journal (snd w')) = SetDecorations example_editor (last (highlights (fst w'))) bound \<and>
      map icons_of bound = [(None, None), (None, None)]"
      using h(1,2) none by (intro exI [of _ w''] exI [of _ bound']) simp
  qed
qed

text \<open>
  The claim as stated fails after a refresh with the example configuration: a target
  whose code is \<^verbatim>\<open>constructor\<close>, which is not a configured character, is bound to the
  inherited member of that name and not to an absent resource.
\<close>

theorem cache_miss_is_fail_soft_counterexample:
  "''constructor'' \<notin> set (characters example_config) \<and>
   last (journal (snd (settle
     (addDecorations example_editor
        [\<lparr>line = 3, character = 5, Placeholder.placeholder = ''constructor''\<rparr>]
        (run [RefreshConfig example_config] new_World))))) =
     SetDecorations example_editor (DecorationType 0)
       [Optioned (DecorationOptions (Range (Position 3 6) (Position 3 6))
          (Some (Inherited ''constructor'')) (Some (Inherited ''constructor'')))]"
proof -
  note r = run_after_refresh [OF no_refresh_Nil, of example_config new_World]
  have a: "allocated (snd (run [RefreshConfig example_config] new_World)) = 0"
    by (simp add: run_Cons run_Nil refreshConfig_returns new_World_def new_Host_def)
  have c: "characters example_config = [''a'', ''s'', ''d'']"
    by (simp add: example_config_def)
  show ?thesis
    unfolding addDecorations_returns [OF r(1,2)] get_property_of_cache
    by (simp add: a c Object_prototype_def)
qed

text \<open>
  Claim C4, as amended. The claim says that an apply operation before the first
  \<^verbatim>\<open>refreshConfig\<close> does nothing and signals nothing. In the code the first statement
  of both methods reads \<^verbatim>\<open>this.config.placeholder.width\<close> while \<^verbatim>\<open>this.config\<close>
  is still undefined, which throws. What holds: in every state reached from a new
  decorator without a \<^verbatim>\<open>refreshConfig\<close>, \<^verbatim>\<open>addDecorations\<close> and
  \<^verbatim>\<open>addHighlights\<close> throw a \<^verbatim>\<open>TypeError\<close> and leave decorator and host as they
  were (no handle is created, tracked or bound); after a \<^verbatim>\<open>refreshConfig\<close>,
  \<^verbatim>\<open>addHighlights\<close> with a count below 1 or above 10 raises no error and binds every
  target to an absent resource.
\<close>

theorem apply_before_refresh_throws:
  "((\<forall>call\<in>set earlier. \<not> isRefreshConfig call) \<longrightarrow>
      addDecorations e ps (run earlier new_World) = Inl (TypeError, run earlier new_World) \<and>
      addHighlights e ps n (run earlier new_World) = Inl (TypeError, run earlier new_World)) \<and>
   ((\<forall>call\<in>set later. \<not> isRefreshConfig call) \<and> (m < 1 \<or> 10 < m) \<longrightarrow>
      (\<exists>w' bound. addHighlights e ps m (run (RefreshConfig c # later) w) = Inr w' \<and>
         last (journal (snd w')) = SetDecorations e (last (highlights (fst w'))) bound \<and>
         map icons_of bound = map (\<lambda>p. (None, None)) ps))"
proof (intro conjI impI)
  assume a: "\<forall>call\<in>set earlier. \<not> isRefreshConfig call"
  have none: "config (fst (run earlier new_World)) = None"
    using run_keeps_caches [OF a, of new_World]
    by (simp add: new_World_def new_PlaceHolderDecorator_def)
  show "addDecorations e ps (run earlier new_World) = Inl (TypeError, run earlier new_World)"
    using none by (simp add: addDecorations_def)
  show "addHighlights e ps n (run earlier new_World) = Inl (TypeError, run earlier new_World)"
    using none by (simp add: addHighlights_def)
next
  assume b: "(\<forall>call\<in>set later. \<not> isRefreshConfig call) \<and> (m < 1 \<or> 10 < m)"
  then have later: "\<forall>call\<in>set later. \<not> isRefreshConfig call" and out: "m < 1 \<or> 10 < m"
    by simp_all
  note r = run_after_refresh [OF later, of c w]
  from out have miss: "m \<notin> set (map (\<lambda>i. int i + 1) [0..<10])"
    unfolding widths_1_to_10 by auto
  show "\<exists>w' bound. addHighlights e ps m (run (RefreshConfig c # later) w) = Inr w' \<and>
         last (journal (snd w')) = SetDecorations e (last (highlights (fst w'))) bound \<and>
         map icons_of bound = map (\<lambda>p. (None, None)) ps"
    unfolding addHighlights_returns [OF r(1,3)] get_indexed_def map_of_foldl_update
    using miss by (simp add: comp_def)
qed

theorem apply_before_refresh_throws_witness:
  "addDecorations example_editor example_targets (run [DimEditor example_editor None] new_World) =
     Inl (TypeError, run [DimEditor example_editor None] new_World) \<and>
   addHighlights example_editor example_targets 2 (run [DimEditor example_editor None] new_World) =
     Inl (TypeError, run [DimEditor example_editor None] new_World) \<and>
   (\<exists>w' bound.
      addHighlights example_editor example_targets 0 (run [RefreshConfig example_config] new_World)
        = Inr w' \<and>
      last (journal (snd w')) = SetDecorations example_editor (last (highlights (fst w'))) bound \<and>
      map icons_of bound = [(None, None), (None, None)])"
  using apply_before_refresh_throws [of "[DimEditor example_editor None]" example_editor
      example_targets 2 "[]" 0 example_config new_World]
  by (simp add: example_targets_def)

text \<open>
  The claim as stated fails on a new decorator: \<^verbatim>\<open>addDecorations\<close> with the example
  targets ends in a \<^verbatim>\<open>TypeError\<close>.
\<close>

theorem apply_before_refresh_counterexample:
  "addDecorations example_editor example_targets new_World = Inl (TypeError, new_World)"
  by (simp add: addDecorations_def new_World_def new_PlaceHolderDecorator_def)


text \<open>
  Claim C10. Whenever a configuration is set, the handle \<^verbatim>\<open>addHighlights\<close> creates
  has the footprint of a placeholder handle: a left margin of minus the placeholder width,
  the placeholder height and the placeholder width, the same options
  \<^verbatim>\<open>addDecorations\<close> passes. The options mention neither \<^verbatim>\<open>highlightCount\<close> nor
  the \<^verbatim>\<open>highlight\<close> part of the configuration.
\<close>

theorem highlight_handle_has_placeholder_footprint:
  assumes "config (fst w) = Some c"
  shows "hd (events_since w (settle (addHighlights e ps n w))) =
           Created (DecorationType (allocated (snd w)))
             (After (''0 0 0 '' @ toString (- PlaceholderConfig.width (Config.placeholder c)) @ ''px'')
                    (toString (PlaceholderConfig.height (Config.placeholder c)) @ ''px'')
                    (toString (PlaceholderConfig.width (Config.placeholder c)) @ ''px'')) \<and>
         hd (events_since w (settle (addDecorations e' ps' w))) =
           Created (DecorationType (allocated (snd w)))
             (After (''0 0 0 '' @ toString (- PlaceholderConfig.width (Config.placeholder c)) @ ''px'')
                    (toString (PlaceholderConfig.height (Config.placeholder c)) @ ''px'')
                    (toString (PlaceholderConfig.width (Config.placeholder c)) @ ''px''))"
  using assms
  by (simp add: addHighlights_def addDecorations_def events_since_def
      createTextEditorDecorationType_def setDecorations_def Let_def split: sum.splits)

theorem highlight_handle_has_placeholder_footprint_witness:
  "hd (events_since (run [RefreshConfig example_config] new_World)
         (settle (addHighlights example_editor example_targets 3
                    (run [RefreshConfig example_config] new_World)))) =
     Created (DecorationType 0) (After ''0 0 0 -12px'' ''14px'' ''12px'')"
proof -
  note r = run_after_refresh [OF no_refresh_Nil, of example_config new_World]
  have a: "allocated (snd (run [RefreshConfig example_config] new_World)) = 0"
    by (simp add: run_Cons run_Nil refreshConfig_returns new_World_def new_Host_def)
  have d: "PlaceholderConfig.width (Config.placeholder example_config) = 12"
    "PlaceholderConfig.height (Config.placeholder example_config) = 14"
    by (simp_all add: example_config_def)
  show ?thesis
    using highlight_handle_has_placeholder_footprint [OF r(1), of example_editor
        example_targets 3 example_editor example_targets]
    by (simp add: a d toString_examples)
qed


section \<open>Dimming\<close>

lemma undimEditor_returns:
  "undimEditor e w =
     ((fst w)\<lparr>dim := None\<rparr>,
      (snd w)\<lparr>journal := journal (snd w) @
         (case dim (fst w) of None \<Rightarrow> [] | Some d \<Rightarrow> cleared_and_released e d)\<rparr>)"
  by (cases w)
     (simp add: undimEditor_def setDecorations_def dispose_def cleared_and_released_def
        split: option.splits)

lemma dimEditor_returns:
  "dimEditor e rs w =
     ((fst w)\<lparr>dim := Some (DecorationType (allocated (snd w)))\<rparr>,
      (snd w)\<lparr>allocated := Suc (allocated (snd w)),
        journal := journal (snd w) @
         (case dim (fst w) of None \<Rightarrow> [] | Some d \<Rightarrow> cleared_and_released e d) @
         [Created (DecorationType (allocated (snd w)))
            (TextDecoration ''none; filter: grayscale(1);''),
          SetDecorations e (DecorationType (allocated (snd w)))
            (map Ranged
              (case rs of
                 Some given \<Rightarrow>
                   if given \<noteq> [] then given
                   else [Range (Position 0 0) (Position (lineCount (document e)) MAX_VALUE)]
               | None \<Rightarrow> [Range (Position 0 0) (Position (lineCount (document e)) MAX_VALUE)]))]\<rparr>)"
  by (simp add: dimEditor_def undimEditor_returns createTextEditorDecorationType_def
      setDecorations_def Let_def)


text \<open>
  Claim C6. \<^verbatim>\<open>dimEditor\<close> tracks the handle it creates, and the last call it makes
  binds that handle: with absent or empty ranges to the single range from \<open>(0, 0)\<close> to
  \<open>(lineCount, Number.MAX_VALUE)\<close> of the editor's document, and with a non-empty list of
  ranges to exactly that list.
\<close>

theorem dimEditor_default_range:
  "dim (fst (dimEditor e rs w)) = Some (DecorationType (allocated (snd w))) \<and>
   last (journal (snd (dimEditor e None w))) =
     SetDecorations e (DecorationType (allocated (snd w)))
       [Ranged (Range (Position 0 0) (Position (lineCount (document e)) MAX_VALUE))] \<and>
   last (journal (snd (dimEditor e (Some []) w))) =
     SetDecorations e (DecorationType (allocated (snd w)))
       [Ranged (Range (Position 0 0) (Position (lineCount (document e)) MAX_VALUE))] \<and>
   last (journal (snd (dimEditor e (Some (r # others)) w))) =
     SetDecorations e (DecorationType (allocated (snd w))) (map Ranged (r # others))"
  by (simp add: dimEditor_returns)

lemma removeDecorations_noop: "decorations (fst w) = [] \<Longrightarrow> removeDecorations e w = w"
  by (cases w) (simp add: removeDecorations_def)

lemma removeHighlights_noop: "highlights (fst w) = [] \<Longrightarrow> removeHighlights e w = w"
  by (cases w) (simp add: removeHighlights_def)

lemma undimEditor_noop: "dim (fst w) = None \<Longrightarrow> undimEditor e w = w"
  by (simp add: undimEditor_def)


text \<open>
  Claim C8. \<^verbatim>\<open>undimEditor\<close> untracks the dim handle and, when one was tracked, clears
  its bindings and releases it, in that order, with no other call to the host and no
  other change to the decorator; so the overlay is gone after the first call. It is
  idempotent: a second call, on any editor, changes neither the decorator nor the host.
  With no dim handle tracked \<^verbatim>\<open>undimEditor\<close> returns normally and changes nothing,
  and so do \<^verbatim>\<open>removeDecorations\<close> and \<^verbatim>\<open>removeHighlights\<close> when their list is
  empty.
\<close>

theorem undimEditor_idempotent:
  "undimEditor e w =
     ((fst w)\<lparr>dim := None\<rparr>,
      (snd w)\<lparr>journal := journal (snd w) @
         (case dim (fst w) of None \<Rightarrow> [] | Some d \<Rightarrow> [SetDecorations e d [], Disposed d])\<rparr>) \<and>
   undimEditor e' (undimEditor e w) = undimEditor e w \<and>
   dim (fst (undimEditor e w)) = None \<and>
   (dim (fst w) = None \<longrightarrow> invoke (UndimEditor e) w = Inr w) \<and>
   (decorations (fst w) = [] \<longrightarrow> invoke (RemoveDecorations e) w = Inr w) \<and>
   (highlights (fst w) = [] \<longrightarrow> invoke (RemoveHighlights e) w = Inr w)"
proof -
  have d: "dim (fst (undimEditor e w)) = None"
    by (simp add: undimEditor_def split: option.splits)
  have r: "undimEditor e w =
     ((fst w)\<lparr>dim := None\<rparr>,
      (snd w)\<lparr>journal := journal (snd w) @
         (case dim (fst w) of None \<Rightarrow> [] | Some d \<Rightarrow> [SetDecorations e d [], Disposed d])\<rparr>)"
    unfolding undimEditor_returns cleared_and_released_def by (rule refl)
  from d have i: "undimEditor e' (undimEditor e w) = undimEditor e w"
    by (rule undimEditor_noop)
  have n: "dim (fst w) = None \<longrightarrow> invoke (UndimEditor e) w = Inr w"
    "decorations (fst w) = [] \<longrightarrow> invoke (RemoveDecorations e) w = Inr w"
    "highlights (fst w) = [] \<longrightarrow> invoke (RemoveHighlights e) w = Inr w"
    by (simp_all add: undimEditor_noop removeDecorations_noop removeHighlights_noop)
  show ?thesis
    using r i d n by (intro conjI) assumption+
qed

theorem undimEditor_idempotent_witness:
  "dim (fst (dimEditor example_editor None new_World)) = Some (DecorationType 0) \<and>
   events_since (dimEditor example_editor None new_World)
     (undimEditor example_editor (dimEditor example_editor None new_World)) =
     [SetDecorations example_editor (DecorationType 0) [], Disposed (DecorationType 0)] \<and>
   dim (fst (undimEditor example_editor (dimEditor example_editor None new_World))) = None \<and>
   undimEditor example_editor
     (undimEditor example_editor (dimEditor example_editor None new_World)) =
     undimEditor example_editor (dimEditor example_editor None new_World) \<and>
   invoke (UndimEditor example_editor) new_World = Inr new_World \<and>
   invoke (RemoveDecorations example_editor) new_World = Inr new_World \<and>
   invoke (RemoveHighlights example_editor) new_World = Inr new_World"
proof -
  have n: "dim (fst new_World) = None" "decorations (fst new_World) = []"
    "highlights (fst new_World) = []" "allocated (snd new_World) = 0"
    by (simp_all add: new_World_def new_PlaceHolderDecorator_def new_Host_def)
  have t: "dim (fst (dimEditor example_editor None new_World)) = Some (DecorationType 0)"
    by (simp add: dimEditor_returns n)
  have "events_since (dimEditor example_editor None new_World)
     (undimEditor example_editor (dimEditor example_editor None new_World)) =
     [SetDecorations example_editor (DecorationType 0) [], Disposed (DecorationType 0)]"
    using undimEditor_idempotent [of example_editor "dimEditor example_editor None new_World"
        example_editor] t
    by (simp add: events_since_def)
  with t n undimEditor_idempotent [of example_editor new_World example_editor]
    undimEditor_idempotent [of example_editor "dimEditor example_editor None new_World"
        example_editor]
  show ?thesis by blast
qed

section \<open>Tracking the handles\<close>

lemma allocated_before_fresh: "allocated_before k h \<Longrightarrow> h \<noteq> DecorationType k"
  by (cases h) auto

lemma allocated_before_Suc: "allocated_before k h \<Longrightarrow> allocated_before (Suc k) h"
  by (cases h) auto

lemma list_all_fresh:
  "list_all (allocated_before k) hs \<Longrightarrow> DecorationType k \<notin> set hs"
  by (induction hs) (auto dest: allocated_before_fresh)

lemma list_all_Suc:
  "list_all (allocated_before k) hs \<Longrightarrow> list_all (allocated_before (Suc k)) hs"
  by (induction hs) (auto dest: allocated_before_Suc)

lemma removeDecorations_returns:
  "removeDecorations e w =
     ((fst w)\<lparr>decorations := []\<rparr>,
      (snd w)\<lparr>journal := journal (snd w) @
                 concat (map (cleared_and_released e) (decorations (fst w)))\<rparr>)"
proof -
  have "foldl (\<lambda>host item. dispose item (setDecorations e item [] host)) h items =
        h\<lparr>journal := journal h @ concat (map (cleared_and_released e) items)\<rparr>" for h items
    by (induction items arbitrary: h)
       (simp_all add: dispose_def setDecorations_def cleared_and_released_def)
  then show ?thesis by (simp add: removeDecorations_def)
qed

lemma removeHighlights_returns:
  "removeHighlights e w =
     ((fst w)\<lparr>highlights := []\<rparr>,
      (snd w)\<lparr>journal := journal (snd w) @
                 concat (map (cleared_and_released e) (highlights (fst w)))\<rparr>)"
proof -
  have "foldl (\<lambda>host item. dispose item (setDecorations e item [] host)) h items =
        h\<lparr>journal := journal h @ concat (map (cleared_and_released e) items)\<rparr>" for h items
    by (induction items arbitrary: h)
       (simp_all add: dispose_def setDecorations_def cleared_and_released_def)
  then show ?thesis by (simp add: removeHighlights_def)
qed

lemma ready_invoke: "ready w \<Longrightarrow> ready (settle (invoke call w))"
proof (cases "isRefreshConfig call")
  case True
  then obtain c where "call = RefreshConfig c" by (cases call) auto
  then show ?thesis by (simp add: ready_def refreshConfig_returns)
next
  case False
  assume "ready w"
  then show ?thesis using invoke_keeps_caches [OF False, of w] by (simp add: ready_def)
qed

lemma caches_built_invoke: "caches_built w \<Longrightarrow> caches_built (settle (invoke call w))"
proof (cases "isRefreshConfig call")
  case True
  then obtain c where "call = RefreshConfig c" by (cases call) auto
  then show ?thesis by (simp add: caches_built_def ready_def refreshConfig_returns)
next
  case False
  assume "caches_built w"
  then show ?thesis
    using invoke_keeps_caches [OF False, of w] by (simp add: caches_built_def ready_def)
qed

lemma caches_built_run: "caches_built w \<Longrightarrow> caches_built (run cs w)"
  by (induction cs arbitrary: w) (simp_all add: run_Nil run_Cons caches_built_invoke)

lemma caches_built_reachable: "caches_built (run cs new_World)"
  by (rule caches_built_run)
     (simp add: caches_built_def new_World_def new_PlaceHolderDecorator_def)

lemma ready_reachable:
  "config (fst (run cs new_World)) \<noteq> None \<Longrightarrow> ready (run cs new_World)"
  using caches_built_reachable [of cs] by (auto simp add: caches_built_def)

lemma settle_addDecorations_cases:
  "settle (addDecorations e ps w) = w \<or>
   (\<exists>j. settle (addDecorations e ps w) =
      (fst w, (snd w)\<lparr>allocated := Suc (allocated (snd w)), journal := j\<rparr>)) \<or>
   (\<exists>j. settle (addDecorations e ps w) =
      ((fst w)\<lparr>decorations := decorations (fst w) @ [DecorationType (allocated (snd w))]\<rparr>,
       (snd w)\<lparr>allocated := Suc (allocated (snd w)), journal := j\<rparr>))"
proof (cases "config (fst w)")
  case None
  then show ?thesis by (simp add: addDecorations_def)
next
  case (Some c)
  show ?thesis
  proof (cases "placeholderOptions (placeholderCache (fst w)) ps")
    case (Inl err)
    with Some show ?thesis
      by (auto simp add: addDecorations_def Let_def createTextEditorDecorationType_def)
  next
    case (Inr options)
    with Some show ?thesis
      by (auto simp add: addDecorations_def Let_def createTextEditorDecorationType_def
          setDecorations_def)
  qed
qed

lemma settle_addHighlights_cases:
  "settle (addHighlights e ps n w) = w \<or>
   (\<exists>j. settle (addHighlights e ps n w) =
      (fst w, (snd w)\<lparr>allocated := Suc (allocated (snd w)), journal := j\<rparr>)) \<or>
   (\<exists>j. settle (addHighlights e ps n w) =
      ((fst w)\<lparr>highlights := highlights (fst w) @ [DecorationType (allocated (snd w))]\<rparr>,
       (snd w)\<lparr>allocated := Suc (allocated (snd w)), journal := j\<rparr>))"
proof (cases "config (fst w)")
  case None
  then show ?thesis by (simp add: addHighlights_def)
next
  case (Some c)
  show ?thesis
  proof (cases "highlightOptions (highlightCache (fst w)) n ps")
    case (Inl err)
    with Some show ?thesis
      by (auto simp add: addHighlights_def Let_def createTextEditorDecorationType_def)
  next
    case (Inr options)
    with Some show ?thesis
      by (auto simp add: addHighlights_def Let_def createTextEditorDecorationType_def
          setDecorations_def)
  qed
qed

lemma handles_distinct_allocate:
  assumes "handles_distinct w"
  shows "handles_distinct (fst w, (snd w)\<lparr>allocated := Suc (allocated (snd w)), journal := j\<rparr>)"
  using assms by (simp add: handles_distinct_def list_all_Suc)

lemma handles_distinct_track_decoration:
  assumes "handles_distinct w"
  shows "handles_distinct
     ((fst w)\<lparr>decorations := decorations (fst w) @ [DecorationType (allocated (snd w))]\<rparr>,
      (snd w)\<lparr>allocated := Suc (allocated (snd w)), journal := j\<rparr>)"
proof -
  from assms have "DecorationType (allocated (snd w)) \<notin> set (tracked (fst w))"
    by (simp add: handles_distinct_def list_all_fresh)
  with assms show ?thesis
    by (simp add: handles_distinct_def tracked_def list_all_Suc)
qed

lemma handles_distinct_track_highlight:
  assumes "handles_distinct w"
  shows "handles_distinct
     ((fst w)\<lparr>highlights := highlights (fst w) @ [DecorationType (allocated (snd w))]\<rparr>,
      (snd w)\<lparr>allocated := Suc (allocated (snd w)), journal := j\<rparr>)"
proof -
  from assms have "DecorationType (allocated (snd w)) \<notin> set (tracked (fst w))"
    by (simp add: handles_distinct_def list_all_fresh)
  with assms show ?thesis
    by (simp add: handles_distinct_def tracked_def list_all_Suc)
qed

lemma handles_distinct_track_dim:
  assumes "handles_distinct w"
  shows "handles_distinct
     ((fst w)\<lparr>dim := Some (DecorationType (allocated (snd w)))\<rparr>,
      (snd w)\<lparr>allocated := Suc (allocated (snd w)), journal := j\<rparr>)"
proof -
  from assms have "DecorationType (allocated (snd w)) \<notin> set (tracked (fst w))"
    by (simp add: handles_distinct_def list_all_fresh)
  with assms show ?thesis
    by (simp add: handles_distinct_def tracked_def list_all_Suc split: option.splits)
qed

lemma handles_distinct_invoke:
  assumes "handles_distinct w"
  shows "handles_distinct (settle (invoke call w))"
proof (cases call)
  case (RefreshConfig c)
  with assms show ?thesis
    by (simp add: refreshConfig_returns handles_distinct_def tracked_def)
next
  case (AddDecorations e ps)
  show ?thesis
    unfolding AddDecorations invoke.simps
    using settle_addDecorations_cases [of e ps w] assms handles_distinct_allocate [OF assms]
      handles_distinct_track_decoration [OF assms]
    by auto
next
  case (AddHighlights e ps n)
  show ?thesis
    unfolding AddHighlights invoke.simps
    using settle_addHighlights_cases [of e ps n w] assms handles_distinct_allocate [OF assms]
      handles_distinct_track_highlight [OF assms]
    by auto
next
  case (DimEditor e rs)
  show ?thesis
    unfolding DimEditor invoke.simps settle.simps dimEditor_returns
    by (rule handles_distinct_track_dim [OF assms])
next
  case (RemoveDecorations e)
  with assms show ?thesis
    by (auto simp add: removeDecorations_returns handles_distinct_def tracked_def split: option.splits)
next
  case (RemoveHighlights e)
  with assms show ?thesis
    by (auto simp add: removeHighlights_returns handles_distinct_def tracked_def split: option.splits)
next
  case (UndimEditor e)
  with assms show ?thesis
    by (auto simp add: undimEditor_returns handles_distinct_def tracked_def split: option.splits)
qed

lemma handles_distinct_run: "handles_distinct w \<Longrightarrow> handles_distinct (run cs w)"
  by (induction cs arbitrary: w) (simp_all add: run_Nil run_Cons handles_distinct_invoke)

lemma handles_distinct_reachable: "handles_distinct (run cs new_World)"
  by (rule handles_distinct_run)
     (simp add: handles_distinct_def tracked_def new_World_def new_PlaceHolderDecorator_def)

lemma decorations_invoke:
  assumes "ready w"
  shows "decorations (fst (settle (invoke call w))) =
     (if isAddDecorations call then decorations (fst w) @ [DecorationType (allocated (snd w))]
      else if isRemoveDecorations call then [] else decorations (fst w))"
proof -
  from assms obtain c pc hc where r: "config (fst w) = Some c"
      "placeholderCache (fst w) = Some pc" "highlightCache (fst w) = Some hc"
    by (auto simp: ready_def)
  show ?thesis
    by (cases call)
       (simp_all add: refreshConfig_returns addDecorations_returns [OF r(1,2)]
          addHighlights_returns [OF r(1,3)] dimEditor_returns removeDecorations_returns
          removeHighlights_returns undimEditor_returns)
qed

lemma highlights_invoke:
  assumes "ready w"
  shows "highlights (fst (settle (invoke call w))) =
     (if isAddHighlights call then highlights (fst w) @ [DecorationType (allocated (snd w))]
      else if isRemoveHighlights call then [] else highlights (fst w))"
proof -
  from assms obtain c pc hc where r: "config (fst w) = Some c"
      "placeholderCache (fst w) = Some pc" "highlightCache (fst w) = Some hc"
    by (auto simp: ready_def)
  show ?thesis
    by (cases call)
       (simp_all add: refreshConfig_returns addDecorations_returns [OF r(1,2)]
          addHighlights_returns [OF r(1,3)] dimEditor_returns removeDecorations_returns
          removeHighlights_returns undimEditor_returns)
qed

lemma decorations_run:
  "ready w \<Longrightarrow> \<forall>call\<in>set cs. \<not> isRemoveDecorations call \<Longrightarrow>
   length (decorations (fst (run cs w))) =
     length (decorations (fst w)) + length (filter isAddDecorations cs)"
proof (induction cs arbitrary: w)
  case Nil
  show ?case by (simp add: run_Nil)
next
  case (Cons call cs)
  from Cons.prems have "ready (settle (invoke call w))" by (simp add: ready_invoke)
  with Cons show ?case
    by (simp add: run_Cons decorations_invoke)
qed

lemma highlights_run:
  "ready w \<Longrightarrow> \<forall>call\<in>set cs. \<not> isRemoveHighlights call \<Longrightarrow>
   length (highlights (fst (run cs w))) =
     length (highlights (fst w)) + length (filter isAddHighlights cs)"
proof (induction cs arbitrary: w)
  case Nil
  show ?case by (simp add: run_Nil)
next
  case (Cons call cs)
  from Cons.prems have "ready (settle (invoke call w))" by (simp add: ready_invoke)
  with Cons show ?case
    by (simp add: run_Cons highlights_invoke)
qed

lemma count_released:
  "count_list (concat (map (cleared_and_released e) hs)) (Disposed h) = count_list hs h"
  by (induction hs) (simp_all add: cleared_and_released_def)

lemma count_cleared:
  "count_list (concat (map (cleared_and_released e) hs)) (SetDecorations e h []) = count_list hs h"
  by (induction hs) (simp_all add: cleared_and_released_def)

lemma count_list_distinct: "distinct hs \<Longrightarrow> h \<in> set hs \<Longrightarrow> count_list hs h = 1"
  by (induction hs) (auto simp: count_list_0_iff)

lemma example_session_ready:
  "config (fst (run example_session new_World)) \<noteq> None"
proof -
  have "\<forall>call\<in>set (tl example_session). \<not> isRefreshConfig call"
    by (simp add: example_session_def)
  from run_after_refresh(1) [OF this, of example_config new_World]
  show ?thesis by (simp add: example_session_def)
qed


text \<open>
  Claim C7. Let \<open>w\<close> be a state reached from a new decorator in which a configuration is
  set. After any calls without a \<^verbatim>\<open>removeDecorations\<close>, the number of tracked
  placeholder handles has grown by the number of \<^verbatim>\<open>addDecorations\<close> calls among them.
  \<^verbatim>\<open>removeDecorations\<close> leaves none tracked, leaves the highlight list alone, and the
  host receives for each tracked handle, in order, one clearing and one release and
  nothing else, so each handle is cleared and released exactly once. The same holds for
  \<^verbatim>\<open>addHighlights\<close> and \<^verbatim>\<open>removeHighlights\<close> on their own list.
  \<^verbatim>\<open>dimEditor\<close> first clears and releases the dim handle tracked so far, if any, then
  creates a handle that was never tracked before and tracks it as the only dim handle.
\<close>

theorem handles_tracked_and_released_once:
  assumes "w = run earlier new_World"
    and "config (fst w) \<noteq> None"
    and "\<forall>call\<in>set cs. \<not> isRemoveDecorations call"
    and "\<forall>call\<in>set cs'. \<not> isRemoveHighlights call"
  shows "length (decorations (fst (run cs w))) =
           length (decorations (fst w)) + length (filter isAddDecorations cs) \<and>
         decorations (fst (removeDecorations e w)) = [] \<and>
         highlights (fst (removeDecorations e w)) = highlights (fst w) \<and>
         events_since w (removeDecorations e w) =
           concat (map (cleared_and_released e) (decorations (fst w))) \<and>
         (\<forall>h\<in>set (decorations (fst w)).
            count_list (events_since w (removeDecorations e w)) (SetDecorations e h []) = 1 \<and>
            count_list (events_since w (removeDecorations e w)) (Disposed h) = 1) \<and>
         length (highlights (fst (run cs' w))) =
           length (highlights (fst w)) + length (filter isAddHighlights cs') \<and>
         highlights (fst (removeHighlights e w)) = [] \<and>
         decorations (fst (removeHighlights e w)) = decorations (fst w) \<and>
         events_since w (removeHighlights e w) =
           concat (map (cleared_and_released e) (highlights (fst w))) \<and>
         (\<forall>h\<in>set (highlights (fst w)).
            count_list (events_since w (removeHighlights e w)) (SetDecorations e h []) = 1 \<and>
            count_list (events_since w (removeHighlights e w)) (Disposed h) = 1) \<and>
         dim (fst (dimEditor e rs w)) = Some (DecorationType (allocated (snd w))) \<and>
         DecorationType (allocated (snd w)) \<notin> set (tracked (fst w)) \<and>
         (\<exists>ranges. events_since w (dimEditor e rs w) =
            (case dim (fst w) of None \<Rightarrow> [] | Some old \<Rightarrow> cleared_and_released e old) @
            [Created (DecorationType (allocated (snd w)))
               (TextDecoration ''none; filter: grayscale(1);''),
             SetDecorations e (DecorationType (allocated (snd w))) ranges])"
proof -
  have rdy: "ready w"
    using assms(1,2) ready_reachable [of earlier] by simp
  have hd: "handles_distinct w"
    using assms(1) handles_distinct_reachable [of earlier] by simp
  then have fresh: "DecorationType (allocated (snd w)) \<notin> set (tracked (fst w))"
    by (simp add: handles_distinct_def list_all_fresh)
  from hd have d: "distinct (decorations (fst w))" "distinct (highlights (fst w))"
    by (simp_all add: handles_distinct_def tracked_def)
  have 1: "length (decorations (fst (run cs w))) =
           length (decorations (fst w)) + length (filter isAddDecorations cs)"
    by (rule decorations_run [OF rdy assms(3)])
  have 2: "length (highlights (fst (run cs' w))) =
           length (highlights (fst w)) + length (filter isAddHighlights cs')"
    by (rule highlights_run [OF rdy assms(4)])
  have 3: "events_since w (removeDecorations e w) =
           concat (map (cleared_and_released e) (decorations (fst w)))"
    by (simp add: events_since_def removeDecorations_returns)
  have 4: "events_since w (removeHighlights e w) =
           concat (map (cleared_and_released e) (highlights (fst w)))"
    by (simp add: events_since_def removeHighlights_returns)
  have 5: "\<forall>h\<in>set (decorations (fst w)).
            count_list (events_since w (removeDecorations e w)) (SetDecorations e h []) = 1 \<and>
            count_list (events_since w (removeDecorations e w)) (Disposed h) = 1"
    unfolding 3 count_released count_cleared using d(1) by (simp add: count_list_distinct)
  have 6: "\<forall>h\<in>set (highlights (fst w)).
            count_list (events_since w (removeHighlights e w)) (SetDecorations e h []) = 1 \<and>
            count_list (events_since w (removeHighlights e w)) (Disposed h) = 1"
    unfolding 4 count_released count_cleared using d(2) by (simp add: count_list_distinct)
  have 7: "\<exists>ranges. events_since w (dimEditor e rs w) =
            (case dim (fst w) of None \<Rightarrow> [] | Some old \<Rightarrow> cleared_and_released e old) @
            [Created (DecorationType (allocated (snd w)))
               (TextDecoration ''none; filter: grayscale(1);''),
             SetDecorations e (DecorationType (allocated (snd w))) ranges]"
    by (simp add: events_since_def dimEditor_returns)
  have 8: "decorations (fst (removeDecorations e w)) = []"
    "highlights (fst (removeDecorations e w)) = highlights (fst w)"
    "highlights (fst (removeHighlights e w)) = []"
    "decorations (fst (removeHighlights e w)) = decorations (fst w)"
    "dim (fst (dimEditor e rs w)) = Some (DecorationType (allocated (snd w)))"
    by (simp_all add: removeDecorations_returns removeHighlights_returns dimEditor_returns)
  from 1 2 3 4 5 6 7 8 fresh show ?thesis by blast
qed

theorem handles_tracked_and_released_once_witness:
  "length (decorations (fst (run example_adds (run example_session new_World)))) =
     length (decorations (fst (run example_session new_World))) + 3 \<and>
   decorations (fst (removeDecorations example_editor (run example_session new_World))) = [] \<and>
   dim (fst (dimEditor example_editor None (run example_session new_World))) =
     Some (DecorationType (allocated (snd (run example_session new_World))))"
proof -
  have a: "\<forall>call\<in>set example_adds. \<not> isRemoveDecorations call"
    and b: "\<forall>call\<in>set example_adds. \<not> isRemoveHighlights call"
    by (simp_all add: example_adds_def)
  have n: "length (filter isAddDecorations example_adds) = 3"
    by (simp add: example_adds_def)
  from handles_tracked_and_released_once [OF refl example_session_ready a b,
      of example_editor None]
  show ?thesis unfolding n by blast
qed


end
